theory Spec2Isabelle
  imports Main
begin

section \<open>Payment confirmation in the wallet command line (cli/wallet.mjs)\<close>

text \<open>
  The development embeds the two commands of \<^verbatim>\<open>cli/wallet.mjs\<close> that wait for a
  Lightning invoice to be paid: \<^verbatim>\<open>invoice\<close> (the polling loop) and
  \<^verbatim>\<open>check-invoice\<close> (the single check). The wallet library, the quote repository,
  the clock and the timer are the environment of the program: their answers are
  parameters of the model, indexed by the number of the call.
\<close>

subsection \<open>Strings\<close>

text \<open>
  \<^verbatim>\<open>String.prototype.includes\<close>: the pattern occurs somewhere in the string,
  compared character by character (upper and lower case are different characters).
\<close>

fun startsWith :: "string \<Rightarrow> string \<Rightarrow> bool" where
  "startsWith s [] = True"
| "startsWith [] (p # ps) = False"
| "startsWith (c # cs) (p # ps) = (c = p \<and> startsWith cs ps)"

fun js_includes :: "string \<Rightarrow> string \<Rightarrow> bool" where
  "js_includes [] p = (p = [])"
| "js_includes (c # cs) p = (startsWith (c # cs) p \<or> js_includes cs p)"

text \<open>
  The specification speaks of matching without regard to case. This is that reading,
  written from the specification's words (the program has no such function): both
  strings are lowered (ASCII letters) before the search.
\<close>

definition ascii_lower :: "char \<Rightarrow> char" where
  "ascii_lower c =
     (case map_of (zip ''ABCDEFGHIJKLMNOPQRSTUVWXYZ'' ''abcdefghijklmnopqrstuvwxyz'') c of
        None \<Rightarrow> c
      | Some l \<Rightarrow> l)"

definition spec_contains_ci :: "string \<Rightarrow> string \<Rightarrow> bool" where
  "spec_contains_ci s p = js_includes (map ascii_lower s) (map ascii_lower p)"

subsection \<open>Data\<close>

text \<open>A stored mint quote; \<open>state\<close> is the string the repository keeps.\<close>

record mint_quote =
  quote :: string
  request :: string
  state :: string

record mint =
  mintUrl :: string
  trusted :: bool

text \<open>A thrown error object: its \<^verbatim>\<open>message\<close> property may be absent.\<close>

datatype js_error = JsError (message: "string option")

text \<open>What the program writes to the console, one constructor for each message.\<close>

datatype line =
    InvoiceInfo string string int string int
  | Dot
  | InvoicePaid
  | PaymentTimeout string string
  | NotPaidYet
  | ErrorRedeeming "string option"
  | ErrorLine "string option"
  | UsageCheckInvoice
  | NoMintFound

subsection \<open>The environment and the state of a run\<close>

text \<open>
  The answers of the collaborators. \<open>getMintQuote e n\<close> is the answer to the
  \<open>n\<close>-th call of \<^verbatim>\<open>coco.mintQuoteRepository.getMintQuote\<close> (\<open>Inl\<close>: it throws;
  \<open>Inr None\<close>: no stored quote), \<open>redeemMintQuote e n\<close> the outcome of the \<open>n\<close>-th
  call of \<^verbatim>\<open>coco.quotes.redeemMintQuote\<close> (\<open>None\<close>: it returns; \<open>Some err\<close>: it
  throws \<open>err\<close>). The \<open>_ms\<close> fields give the milliseconds each call takes and
  \<open>setTimeout_late\<close> the milliseconds by which the \<open>n\<close>-th timer fires late.
  \<open>parseInt\<close> is the JavaScript builtin (\<open>None\<close> is \<^verbatim>\<open>NaN\<close>).
\<close>

record env =
  getMintQuote :: "nat \<Rightarrow> string \<Rightarrow> string \<Rightarrow> js_error + mint_quote option"
  getMintQuote_ms :: "nat \<Rightarrow> nat"
  redeemMintQuote :: "nat \<Rightarrow> string \<Rightarrow> string \<Rightarrow> js_error option"
  redeemMintQuote_ms :: "nat \<Rightarrow> nat"
  setTimeout_late :: "nat \<Rightarrow> nat"
  getAllMints :: "js_error + mint list"
  createMintQuote :: "string \<Rightarrow> int \<Rightarrow> js_error + mint_quote"
  parseInt :: "string option \<Rightarrow> int option"

text \<open>
  The state of a run: the clock (\<^verbatim>\<open>Date.now()\<close>), how many calls of each kind have
  been made, the console output (oldest first) and whether \<^verbatim>\<open>cleanup\<close> has run.
\<close>

record world =
  now :: int
  reads :: nat
  redeems :: nat
  sleeps :: nat
  console :: "line list"
  cleaned :: bool

definition print :: "line \<Rightarrow> world \<Rightarrow> world" where
  "print l w = w\<lparr>console := console w @ [l]\<rparr>"

definition call_getMintQuote ::
  "env \<Rightarrow> string \<Rightarrow> string \<Rightarrow> world \<Rightarrow> (js_error + mint_quote option) \<times> world" where
  "call_getMintQuote e url quoteId w =
     (getMintQuote e (reads w) url quoteId,
      w\<lparr>now := now w + int (getMintQuote_ms e (reads w)), reads := Suc (reads w)\<rparr>)"

definition call_redeemMintQuote ::
  "env \<Rightarrow> string \<Rightarrow> string \<Rightarrow> world \<Rightarrow> js_error option \<times> world" where
  "call_redeemMintQuote e url quoteId w =
     (redeemMintQuote e (redeems w) url quoteId,
      w\<lparr>now := now w + int (redeemMintQuote_ms e (redeems w)), redeems := Suc (redeems w)\<rparr>)"

text \<open>\<^verbatim>\<open>await new Promise(resolve => setTimeout(resolve, ms))\<close>\<close>

definition call_setTimeout :: "env \<Rightarrow> nat \<Rightarrow> world \<Rightarrow> world" where
  "call_setTimeout e ms w =
     w\<lparr>now := now w + int ms + int (setTimeout_late e (sleeps w)), sleeps := Suc (sleeps w)\<rparr>"

subsection \<open>JavaScript idioms\<close>

text \<open>\<^verbatim>\<open>args[i]\<close>: \<^verbatim>\<open>undefined\<close> beyond the end of the array.\<close>

definition arg :: "string list \<Rightarrow> nat \<Rightarrow> string option" where
  "arg args i = (if i < length args then Some (args ! i) else None)"

text \<open>Truthiness of a string that may be \<^verbatim>\<open>undefined\<close>.\<close>

definition truthy :: "string option \<Rightarrow> bool" where
  "truthy a = (case a of None \<Rightarrow> False | Some s \<Rightarrow> s \<noteq> [])"

text \<open>\<^verbatim>\<open>parseInt(x) || d\<close>: \<^verbatim>\<open>NaN\<close> and \<open>0\<close> are falsy.\<close>

definition or_default :: "int option \<Rightarrow> int \<Rightarrow> int" where
  "or_default n d = (case n of None \<Rightarrow> d | Some v \<Rightarrow> if v = 0 then d else v)"

text \<open>\<^verbatim>\<open>error.message || ''\<close>\<close>

definition message_or_empty :: "js_error \<Rightarrow> string" where
  "message_or_empty error = (case message error of None \<Rightarrow> [] | Some m \<Rightarrow> m)"

text \<open>\<^verbatim>\<open>localQuote && localQuote.state === 'ISSUED'\<close>\<close>

definition is_ISSUED :: "mint_quote option \<Rightarrow> bool" where
  "is_ISSUED localQuote = (case localQuote of None \<Rightarrow> False | Some q \<Rightarrow> state q = ''ISSUED'')"

text \<open>\<^verbatim>\<open>args[1] || (await coco.mint.getAllMints())[0]?.mintUrl\<close>\<close>

definition resolve_mintUrl :: "env \<Rightarrow> string option \<Rightarrow> js_error + string option" where
  "resolve_mintUrl e a =
     (if truthy a then Inr a
      else case getAllMints e of
             Inl err \<Rightarrow> Inl err
           | Inr ms \<Rightarrow> Inr (case ms of [] \<Rightarrow> None | m # _ \<Rightarrow> Some (mintUrl m)))"

subsection \<open>The \<^verbatim>\<open>invoice\<close> command: the polling loop\<close>

definition pollInterval :: nat where
  "pollInterval = 5000"

text \<open>The conditions of the two \<^verbatim>\<open>if\<close> statements of the loop's \<^verbatim>\<open>catch\<close> block.\<close>

definition invoice_already :: "string \<Rightarrow> bool" where
  "invoice_already errorMsg =
     (js_includes errorMsg ''already issued'' \<or> js_includes errorMsg ''already spent''
      \<or> js_includes errorMsg ''Tokens already minted'')"

definition invoice_not_paid :: "string \<Rightarrow> bool" where
  "invoice_not_paid errorMsg =
     (js_includes errorMsg ''PENDING'' \<or> js_includes errorMsg ''not paid''
      \<or> js_includes errorMsg ''UNPAID'' \<or> js_includes errorMsg ''Quote not paid''
      \<or> js_includes errorMsg ''quote not paid'')"

text \<open>How one pass through the loop body ends.\<close>

datatype completion = Break_paid | Next_poll | Throw js_error

text \<open>The \<^verbatim>\<open>try\<close> block: \<open>Inr ()\<close> is \<^verbatim>\<open>paid = true; break\<close>, \<open>Inl err\<close> a throw.\<close>

definition invoice_try :: "env \<Rightarrow> string \<Rightarrow> string \<Rightarrow> world \<Rightarrow> (js_error + unit) \<times> world" where
  "invoice_try e url quoteId w =
     (case call_getMintQuote e url quoteId w of
        (Inl err, w1) \<Rightarrow> (Inl err, w1)
      | (Inr localQuote, w1) \<Rightarrow>
          if is_ISSUED localQuote then (Inr (), w1)
          else (case call_redeemMintQuote e url quoteId w1 of
                  (Some err, w2) \<Rightarrow> (Inl err, w2)
                | (None, w2) \<Rightarrow> (Inr (), w2)))"

text \<open>The second \<^verbatim>\<open>if\<close> of the \<^verbatim>\<open>catch\<close> block: keep polling, or throw the error again.\<close>

definition invoice_wait_or_throw :: "env \<Rightarrow> string \<Rightarrow> js_error \<Rightarrow> world \<Rightarrow> completion \<times> world" where
  "invoice_wait_or_throw e errorMsg error w =
     (if invoice_not_paid errorMsg
      then (Next_poll, call_setTimeout e pollInterval (print Dot w))
      else (Throw error, w))"

definition invoice_catch ::
  "env \<Rightarrow> string \<Rightarrow> string \<Rightarrow> js_error \<Rightarrow> world \<Rightarrow> completion \<times> world" where
  "invoice_catch e url quoteId error w =
     (let errorMsg = message_or_empty error in
      if invoice_already errorMsg
      then (case call_getMintQuote e url quoteId w of
              (Inl err, w1) \<Rightarrow> (Throw err, w1)
            | (Inr localQuote, w1) \<Rightarrow>
                if is_ISSUED localQuote then (Break_paid, w1)
                else invoice_wait_or_throw e errorMsg error w1)
      else invoice_wait_or_throw e errorMsg error w)"

definition invoice_body :: "env \<Rightarrow> string \<Rightarrow> string \<Rightarrow> world \<Rightarrow> completion \<times> world" where
  "invoice_body e url quoteId w =
     (case invoice_try e url quoteId w of
        (Inr u, w1) \<Rightarrow> (Break_paid, w1)
      | (Inl error, w1) \<Rightarrow> invoice_catch e url quoteId error w1)"

text \<open>
  \<^verbatim>\<open>while (Date.now() - startTime < timeoutMs) { ... }\<close>: the result is the value of
  \<^verbatim>\<open>paid\<close> when the loop ends, or the error thrown out of it.
\<close>

function invoice_loop ::
  "env \<Rightarrow> string \<Rightarrow> string \<Rightarrow> int \<Rightarrow> int \<Rightarrow> world \<Rightarrow> (js_error + bool) \<times> world" where
  "invoice_loop e url quoteId startTime timeoutMs w =
     (if now w - startTime < timeoutMs
      then (case invoice_body e url quoteId w of
              (Break_paid, w1) \<Rightarrow> (Inr True, w1)
            | (Next_poll, w1) \<Rightarrow> invoice_loop e url quoteId startTime timeoutMs w1
            | (Throw err, w1) \<Rightarrow> (Inl err, w1))
      else (Inr False, w))"
  by pat_completeness auto
termination
proof (relation "measure (\<lambda>(e, url, quoteId, startTime, timeoutMs, w). nat (timeoutMs - (now w - startTime)))")
  show "wf (measure (\<lambda>(e, url, quoteId, startTime, timeoutMs, w). nat (timeoutMs - (now w - startTime))))"
    by simp
next
  fix e :: env and url quoteId :: string and startTime timeoutMs :: int and w w1 :: world
    and c :: completion
  assume live: "now w - startTime < timeoutMs"
    and c: "(c, w1) = invoice_body e url quoteId w" "c = Next_poll"
  have body: "invoice_body e url quoteId w = (Next_poll, w1)"
    using c by simp
  have mono_read: "now w' \<le> now (snd (call_getMintQuote e url quoteId w'))" for w'
    by (simp add: call_getMintQuote_def)
  have mono_redeem: "now w' \<le> now (snd (call_redeemMintQuote e url quoteId w'))" for w'
    by (simp add: call_redeemMintQuote_def)
  have wait: "now w' + 5000 \<le> now w''"
    if "invoice_wait_or_throw e m err w' = (Next_poll, w'')" for m err w' w''
    using that
    by (auto simp: invoice_wait_or_throw_def call_setTimeout_def print_def pollInterval_def
        split: if_splits)
  have catch_wait: "now w' + 5000 \<le> now w''"
    if "invoice_catch e url quoteId err w' = (Next_poll, w'')" for err w' w''
  proof (cases "invoice_already (message_or_empty err)")
    case False
    with that show ?thesis
      by (auto simp: invoice_catch_def Let_def dest: wait)
  next
    case True
    obtain r w2 where r: "call_getMintQuote e url quoteId w' = (r, w2)"
      by (cases "call_getMintQuote e url quoteId w'")
    have "now w' \<le> now w2"
      using mono_read [of w'] r by simp
    moreover have "now w2 + 5000 \<le> now w''"
      using that True r
      by (auto simp: invoice_catch_def Let_def split: sum.splits if_splits dest: wait)
    ultimately show ?thesis by simp
  qed
  have try_mono: "now w \<le> now w'" if "invoice_try e url quoteId w = (r, w')" for r w'
  proof -
    obtain r1 w2 where r1: "call_getMintQuote e url quoteId w = (r1, w2)"
      by (cases "call_getMintQuote e url quoteId w")
    obtain r2 w3 where r2: "call_redeemMintQuote e url quoteId w2 = (r2, w3)"
      by (cases "call_redeemMintQuote e url quoteId w2")
    have "now w \<le> now w2" "now w2 \<le> now w3"
      using mono_read [of w] r1 mono_redeem [of w2] r2 by simp_all
    then show ?thesis
      using that r1 r2
      by (auto simp: invoice_try_def split: sum.splits if_splits option.splits)
  qed
  obtain r w2 where t: "invoice_try e url quoteId w = (r, w2)"
    by (cases "invoice_try e url quoteId w")
  have "now w \<le> now w2"
    using try_mono t by simp
  moreover have "now w2 + 5000 \<le> now w1"
    using body t by (auto simp: invoice_body_def split: sum.splits dest: catch_wait)
  ultimately have "now w < now w1"
    by simp
  then show "((e, url, quoteId, startTime, timeoutMs, w1), (e, url, quoteId, startTime, timeoutMs, w))
      \<in> measure (\<lambda>(e, url, quoteId, startTime, timeoutMs, w). nat (timeoutMs - (now w - startTime)))"
    using live by simp
qed


text \<open>How a command of \<^verbatim>\<open>main\<close>'s \<^verbatim>\<open>switch\<close> ends: \<^verbatim>\<open>break\<close>, \<^verbatim>\<open>process.exit(code)\<close> or a throw.\<close>

datatype cmd_completion = Fallthrough | Exit nat | Raise js_error

text \<open>From \<^verbatim>\<open>const startTime = Date.now()\<close> to the message after the loop.\<close>

definition invoice_wait :: "env \<Rightarrow> string \<Rightarrow> string \<Rightarrow> int \<Rightarrow> world \<Rightarrow> cmd_completion \<times> world" where
  "invoice_wait e url quoteId timeoutMs w =
     (let startTime = now w in
      case invoice_loop e url quoteId startTime timeoutMs w of
        (Inl err, w1) \<Rightarrow> (Raise err, w1)
      | (Inr paid, w1) \<Rightarrow>
          (Fallthrough, print (if paid then InvoicePaid else PaymentTimeout quoteId url) w1))"

definition invoice_cmd :: "env \<Rightarrow> string list \<Rightarrow> world \<Rightarrow> cmd_completion \<times> world" where
  "invoice_cmd e args w =
     (let amount = or_default (parseInt e (arg args 0)) 1000 in
      case resolve_mintUrl e (arg args 1) of
        Inl err \<Rightarrow> (Raise err, w)
      | Inr m \<Rightarrow>
          let timeoutMs = or_default (parseInt e (arg args 2)) 300000 in
          (case m of
             None \<Rightarrow> (Exit 1, print NoMintFound w)
           | Some url \<Rightarrow>
               if url = [] then (Exit 1, print NoMintFound w)
               else (case createMintQuote e url amount of
                       Inl err \<Rightarrow> (Raise err, w)
                     | Inr q \<Rightarrow>
                         invoice_wait e url (quote q) timeoutMs
                           (print (InvoiceInfo (request q) (quote q) amount url timeoutMs) w))))"

subsection \<open>The \<^verbatim>\<open>check-invoice\<close> command\<close>

definition check_already :: "string \<Rightarrow> bool" where
  "check_already errorMsg =
     (js_includes errorMsg ''already issued'' \<or> js_includes errorMsg ''already spent'')"

definition check_not_paid :: "string \<Rightarrow> bool" where
  "check_not_paid errorMsg =
     (js_includes errorMsg ''PENDING'' \<or> js_includes errorMsg ''not paid''
      \<or> js_includes errorMsg ''UNPAID'')"

definition check_try :: "env \<Rightarrow> string \<Rightarrow> string \<Rightarrow> world \<Rightarrow> (js_error + unit) \<times> world" where
  "check_try e url quoteId w =
     (case call_getMintQuote e url quoteId w of
        (Inl err, w1) \<Rightarrow> (Inl err, w1)
      | (Inr localQuote, w1) \<Rightarrow>
          if is_ISSUED localQuote then (Inr (), print InvoicePaid w1)
          else (case call_redeemMintQuote e url quoteId w1 of
                  (Some err, w2) \<Rightarrow> (Inl err, w2)
                | (None, w2) \<Rightarrow> (Inr (), print InvoicePaid w2)))"

text \<open>The second \<^verbatim>\<open>if\<close> of the \<^verbatim>\<open>catch\<close> block: report "not paid yet", or exit with 1.\<close>

definition check_report_or_exit :: "string \<Rightarrow> js_error \<Rightarrow> world \<Rightarrow> cmd_completion \<times> world" where
  "check_report_or_exit errorMsg error w =
     (if check_not_paid errorMsg
      then (Fallthrough, print NotPaidYet w)
      else (Exit 1, print (ErrorRedeeming (message error)) w))"

definition check_catch ::
  "env \<Rightarrow> string \<Rightarrow> string \<Rightarrow> js_error \<Rightarrow> world \<Rightarrow> cmd_completion \<times> world" where
  "check_catch e url quoteId error w =
     (let errorMsg = message_or_empty error in
      if check_already errorMsg
      then (case call_getMintQuote e url quoteId w of
              (Inl err, w1) \<Rightarrow> (Raise err, w1)
            | (Inr localQuote, w1) \<Rightarrow>
                if is_ISSUED localQuote then (Fallthrough, print InvoicePaid w1)
                else check_report_or_exit errorMsg error w1)
      else check_report_or_exit errorMsg error w)"

definition check_reconcile :: "env \<Rightarrow> string \<Rightarrow> string \<Rightarrow> world \<Rightarrow> cmd_completion \<times> world" where
  "check_reconcile e url quoteId w =
     (case check_try e url quoteId w of
        (Inr u, w1) \<Rightarrow> (Fallthrough, w1)
      | (Inl error, w1) \<Rightarrow> check_catch e url quoteId error w1)"

definition check_invoice_cmd :: "env \<Rightarrow> string list \<Rightarrow> world \<Rightarrow> cmd_completion \<times> world" where
  "check_invoice_cmd e args w =
     (if \<not> truthy (arg args 0) then (Exit 1, print UsageCheckInvoice w)
      else case resolve_mintUrl e (arg args 1) of
             Inl err \<Rightarrow> (Raise err, w)
           | Inr m \<Rightarrow>
               (case m of
                  None \<Rightarrow> (Exit 1, print NoMintFound w)
                | Some url \<Rightarrow>
                    if url = [] then (Exit 1, print NoMintFound w)
                    else check_reconcile e url (args ! 0) w))"

subsection \<open>\<^verbatim>\<open>main\<close>\<close>

text \<open>
  The two commands of the \<^verbatim>\<open>switch\<close> that reconcile a quote. \<^verbatim>\<open>cleanup\<close> catches its
  own errors, so it always returns; \<^verbatim>\<open>process.exit\<close> inside a command ends the
  process at once, without \<^verbatim>\<open>cleanup\<close>. The result is the exit code.
\<close>

datatype command = Invoice | Check_invoice

definition cleanup :: "world \<Rightarrow> world" where
  "cleanup w = w\<lparr>cleaned := True\<rparr>"

definition main :: "env \<Rightarrow> command \<Rightarrow> string list \<Rightarrow> world \<Rightarrow> nat \<times> world" where
  "main e command args w =
     (case (case command of
              Invoice \<Rightarrow> invoice_cmd e args w
            | Check_invoice \<Rightarrow> check_invoice_cmd e args w) of
        (Fallthrough, w1) \<Rightarrow> (0, cleanup w1)
      | (Exit code, w1) \<Rightarrow> (code, w1)
      | (Raise error, w1) \<Rightarrow> (1, cleanup (print (ErrorLine (message error)) w1)))"

text \<open>Running \<^verbatim>\<open>check-invoice\<close> \<open>n\<close> times in a row: the exit codes, in order.\<close>

fun check_invoice_times :: "nat \<Rightarrow> env \<Rightarrow> string list \<Rightarrow> world \<Rightarrow> nat list \<times> world" where
  "check_invoice_times 0 e args w = ([], w)"
| "check_invoice_times (Suc n) e args w =
     (case main e Check_invoice args w of
        (code, w1) \<Rightarrow>
          (case check_invoice_times n e args w1 of (codes, w2) \<Rightarrow> (code # codes, w2)))"

subsection \<open>The three outcomes the specification names\<close>

text \<open>
  How the \<^verbatim>\<open>catch\<close> block of each command ends, in the specification's words:
  success as a duplicate, still pending, or fatal.
\<close>

datatype classification = Duplicate_success | Pending | Fatal

definition invoice_classification :: "completion \<times> world \<Rightarrow> classification" where
  "invoice_classification r =
     (case fst r of Break_paid \<Rightarrow> Duplicate_success | Next_poll \<Rightarrow> Pending | Throw err \<Rightarrow> Fatal)"

definition check_classification :: "cmd_completion \<times> world \<Rightarrow> classification" where
  "check_classification r =
     (case fst r of
        Fallthrough \<Rightarrow>
          (case rev (console (snd r)) of InvoicePaid # ls \<Rightarrow> Duplicate_success | _ \<Rightarrow> Pending)
      | Exit code \<Rightarrow> Fatal
      | Raise err \<Rightarrow> Fatal)"

subsection \<open>Example runs\<close>

text \<open>
  A quote store and a mint given by their answers to the successive calls; every call
  takes \<open>ms\<close> milliseconds and timers fire on time. One mint is configured.
\<close>

definition stored :: "string \<Rightarrow> mint_quote option" where
  "stored s = Some \<lparr>quote = ''q1'', request = ''lnbc1'', state = s\<rparr>"

definition example_parseInt :: "string option \<Rightarrow> int option" where
  "example_parseInt a =
     (if a = Some ''12000'' then Some 12000 else if a = Some ''500'' then Some 500 else None)"

definition example_env ::
  "(nat \<Rightarrow> js_error + mint_quote option) \<Rightarrow> (nat \<Rightarrow> js_error option) \<Rightarrow> nat \<Rightarrow> env" where
  "example_env answers outcomes ms =
     \<lparr>getMintQuote = (\<lambda>n url quoteId. answers n),
      getMintQuote_ms = (\<lambda>n. ms),
      redeemMintQuote = (\<lambda>n url quoteId. outcomes n),
      redeemMintQuote_ms = (\<lambda>n. ms),
      setTimeout_late = (\<lambda>n. 0),
      getAllMints = Inr [\<lparr>mintUrl = ''https://mint.example'', trusted = True\<rparr>],
      createMintQuote = (\<lambda>url amount. Inr \<lparr>quote = ''q1'', request = ''lnbc1'', state = ''UNPAID''\<rparr>),
      parseInt = example_parseInt\<rparr>"

definition start :: world where
  "start = \<lparr>now = 0, reads = 0, redeems = 0, sleeps = 0, console = [], cleaned = False\<rparr>"

section \<open>Properties\<close>

subsection \<open>Auxiliary facts\<close>

declare invoice_loop.simps [simp del]

lemma startsWith_iff: "startsWith s p \<longleftrightarrow> (\<exists>b. s = p @ b)"
  by (induction s p rule: startsWith.induct) auto

lemma js_includes_iff: "js_includes s p \<longleftrightarrow> (\<exists>a b. s = a @ p @ b)"
proof (induction s)
  case Nil
  then show ?case by simp
next
  case (Cons c cs)
  show ?case
  proof
    assume "js_includes (c # cs) p"
    then consider "startsWith (c # cs) p" | "js_includes cs p" by auto
    then show "\<exists>a b. c # cs = a @ p @ b"
    proof cases
      case 1
      then obtain b where "c # cs = p @ b" by (auto simp: startsWith_iff)
      then have "c # cs = [] @ p @ b" by simp
      then show ?thesis by blast
    next
      case 2
      then obtain a b where "cs = a @ p @ b" using Cons.IH by auto
      then have "c # cs = (c # a) @ p @ b" by simp
      then show ?thesis by blast
    qed
  next
    assume "\<exists>a b. c # cs = a @ p @ b"
    then obtain a b where ab: "c # cs = a @ p @ b" by blast
    show "js_includes (c # cs) p"
    proof (cases a)
      case Nil
      then have "startsWith (c # cs) p" using ab by (auto simp: startsWith_iff)
      then show ?thesis by simp
    next
      case (Cons x xs)
      then have "cs = xs @ p @ b" using ab by simp
      then have "js_includes cs p" using Cons.IH by blast
      then show ?thesis by simp
    qed
  qed
qed

lemma js_includes_longer: "js_includes s (a @ p @ b) \<Longrightarrow> js_includes s p"
  unfolding js_includes_iff
  by (metis append.assoc)

lemma js_includes_imp_spec_contains_ci: "js_includes s p \<Longrightarrow> spec_contains_ci s p"
proof -
  assume "js_includes s p"
  then obtain a b where "s = a @ p @ b" by (auto simp: js_includes_iff)
  then have "map ascii_lower s = map ascii_lower a @ map ascii_lower p @ map ascii_lower b"
    by simp
  then show ?thesis
    unfolding spec_contains_ci_def js_includes_iff by blast
qed

lemma invoice_not_paid_eq: "invoice_not_paid m = check_not_paid m"
proof -
  have "js_includes m ''Quote not paid'' \<Longrightarrow> js_includes m ''not paid''"
    using js_includes_longer [of m "''Quote ''" "''not paid''" "[]"] by simp
  moreover have "js_includes m ''quote not paid'' \<Longrightarrow> js_includes m ''not paid''"
    using js_includes_longer [of m "''quote ''" "''not paid''" "[]"] by simp
  ultimately show ?thesis
    by (auto simp: invoice_not_paid_def check_not_paid_def)
qed

lemma check_already_imp: "check_already m \<Longrightarrow> invoice_already m"
  by (auto simp: check_already_def invoice_already_def)

lemma invoice_loop_enter:
  "now w - startTime < timeoutMs \<Longrightarrow>
   invoice_loop e url quoteId startTime timeoutMs w =
     (case invoice_body e url quoteId w of
        (Break_paid, w1) \<Rightarrow> (Inr True, w1)
      | (Next_poll, w1) \<Rightarrow> invoice_loop e url quoteId startTime timeoutMs w1
      | (Throw err, w1) \<Rightarrow> (Inl err, w1))"
  by (subst invoice_loop.simps) simp

lemma invoice_loop_leave:
  "\<not> now w - startTime < timeoutMs \<Longrightarrow>
   invoice_loop e url quoteId startTime timeoutMs w = (Inr False, w)"
  by (subst invoice_loop.simps) simp

lemma invoice_cmd_resolved:
  assumes "resolve_mintUrl e (arg args 1) = Inr (Some url)" and "url \<noteq> []"
    and "createMintQuote e url (or_default (parseInt e (arg args 0)) 1000) = Inr q"
  shows "invoice_cmd e args w =
     invoice_wait e url (quote q) (or_default (parseInt e (arg args 2)) 300000)
       (print (InvoiceInfo (request q) (quote q) (or_default (parseInt e (arg args 0)) 1000) url
          (or_default (parseInt e (arg args 2)) 300000)) w)"
  using assms by (simp add: invoice_cmd_def Let_def)

lemma check_invoice_cmd_resolved:
  assumes "truthy (arg args 0)" and "resolve_mintUrl e (arg args 1) = Inr (Some url)" and "url \<noteq> []"
  shows "check_invoice_cmd e args w = check_reconcile e url (args ! 0) w"
  using assms by (simp add: check_invoice_cmd_def)

subsection \<open>A quote already issued\<close>

text \<open>
  Claim C2. When the read of the quote store at the start of a pass returns a quote in
  state \<open>ISSUED\<close>, the loop ends with \<open>paid = true\<close> and the single check prints the
  confirmation; in both the state reached is the state right after that one read, so
  \<^verbatim>\<open>redeemMintQuote\<close> has not been called.
\<close>


theorem issued_read_resolves_without_redeem:
  assumes "getMintQuote e (reads w) url quoteId = Inr (Some q)" and "state q = ''ISSUED''"
  shows "(now w - startTime < timeoutMs \<longrightarrow>
            invoice_loop e url quoteId startTime timeoutMs w
              = (Inr True, snd (call_getMintQuote e url quoteId w)))
       \<and> (0 < timeoutMs \<longrightarrow>
            invoice_wait e url quoteId timeoutMs w
              = (Fallthrough, print InvoicePaid (snd (call_getMintQuote e url quoteId w))))
       \<and> check_reconcile e url quoteId w
              = (Fallthrough, print InvoicePaid (snd (call_getMintQuote e url quoteId w)))
       \<and> redeems (print InvoicePaid (snd (call_getMintQuote e url quoteId w))) = redeems w"
proof -
  have t: "invoice_try e url quoteId w = (Inr (), snd (call_getMintQuote e url quoteId w))"
    using assms by (simp add: invoice_try_def call_getMintQuote_def is_ISSUED_def)
  have b: "invoice_body e url quoteId w = (Break_paid, snd (call_getMintQuote e url quoteId w))"
    by (simp add: invoice_body_def t)
  have l: "invoice_loop e url quoteId startTime timeoutMs w
              = (Inr True, snd (call_getMintQuote e url quoteId w))"
    if "now w - startTime < timeoutMs" for startTime timeoutMs
    using that by (simp add: invoice_loop_enter b)
  have c: "check_try e url quoteId w
             = (Inr (), print InvoicePaid (snd (call_getMintQuote e url quoteId w)))"
    using assms by (simp add: check_try_def call_getMintQuote_def is_ISSUED_def)
  show ?thesis
    using l [of "now w"] l
    by (simp add: invoice_wait_def check_reconcile_def c print_def call_getMintQuote_def)
qed

theorem issued_read_resolves_without_redeem_witness:
  "invoice_loop (example_env (\<lambda>n. Inr (stored ''ISSUED'')) (\<lambda>n. None) 0)
       ''https://mint.example'' ''q1'' 0 300000 start
     = (Inr True, start\<lparr>reads := 1\<rparr>)
   \<and> invoice_wait (example_env (\<lambda>n. Inr (stored ''ISSUED'')) (\<lambda>n. None) 0)
       ''https://mint.example'' ''q1'' 300000 start
     = (Fallthrough, start\<lparr>reads := 1, console := [InvoicePaid]\<rparr>)
   \<and> check_reconcile (example_env (\<lambda>n. Inr (stored ''ISSUED'')) (\<lambda>n. None) 0)
       ''https://mint.example'' ''q1'' start
     = (Fallthrough, start\<lparr>reads := 1, console := [InvoicePaid]\<rparr>)
   \<and> redeems (start\<lparr>reads := 1, console := [InvoicePaid]\<rparr>) = 0"
proof -
  have h1: "getMintQuote (example_env (\<lambda>n. Inr (stored ''ISSUED'')) (\<lambda>n. None) 0) (reads start)
      ''https://mint.example'' ''q1'' = Inr (Some \<lparr>quote = ''q1'', request = ''lnbc1'', state = ''ISSUED''\<rparr>)"
    by (simp add: example_env_def stored_def)
  have h2: "state \<lparr>quote = ''q1'', request = ''lnbc1'', state = ''ISSUED''\<rparr> = ''ISSUED''"
    by simp
  show ?thesis
    using issued_read_resolves_without_redeem [OF h1 h2, of 0 300000]
    by (simp add: example_env_def start_def call_getMintQuote_def print_def)
qed


subsection \<open>No stored quote\<close>



subsection \<open>Errors that match no pattern\<close>

text \<open>
  Claim C10. An error whose \<^verbatim>\<open>message\<close> is absent or empty matches no pattern: the
  loop's \<^verbatim>\<open>catch\<close> block throws it again without another call, so the loop ends with
  that error; the single check prints it and exits with code 1.
\<close>

theorem error_without_message_is_fatal:
  assumes "message error = None \<or> message error = Some []"
  shows "invoice_catch e url quoteId error w = (Throw error, w)
       \<and> check_catch e url quoteId error w = (Exit 1, print (ErrorRedeeming (message error)) w)
       \<and> (now w - startTime < timeoutMs \<and> invoice_try e url quoteId w = (Inl error, w1) \<longrightarrow>
            invoice_loop e url quoteId startTime timeoutMs w = (Inl error, w1))
       \<and> (check_try e url quoteId w = (Inl error, w1) \<longrightarrow>
            check_reconcile e url quoteId w = (Exit 1, print (ErrorRedeeming (message error)) w1))"
proof -
  have m: "message_or_empty error = []"
    using assms by (auto simp: message_or_empty_def)
  have i: "invoice_catch e url quoteId error w' = (Throw error, w')" for w'
    by (simp add: invoice_catch_def m invoice_already_def invoice_not_paid_def
        invoice_wait_or_throw_def)
  have c: "check_catch e url quoteId error w' = (Exit 1, print (ErrorRedeeming (message error)) w')" for w'
    by (simp add: check_catch_def m check_already_def check_not_paid_def check_report_or_exit_def)
  show ?thesis
    by (simp add: i c invoice_loop_enter invoice_body_def check_reconcile_def)
qed

theorem error_without_message_is_fatal_witness:
  "invoice_catch (example_env (\<lambda>n. Inr None) (\<lambda>n. Some (JsError None)) 0)
       ''https://mint.example'' ''q1'' (JsError None) start
     = (Throw (JsError None), start)
   \<and> check_catch (example_env (\<lambda>n. Inr None) (\<lambda>n. Some (JsError None)) 0)
       ''https://mint.example'' ''q1'' (JsError None) start
     = (Exit 1, start\<lparr>console := [ErrorRedeeming None]\<rparr>)
   \<and> invoice_loop (example_env (\<lambda>n. Inr None) (\<lambda>n. Some (JsError None)) 0)
       ''https://mint.example'' ''q1'' 0 300000 start
     = (Inl (JsError None), start\<lparr>reads := 1, redeems := 1\<rparr>)
   \<and> check_reconcile (example_env (\<lambda>n. Inr None) (\<lambda>n. Some (JsError (Some []))) 0)
       ''https://mint.example'' ''q1'' start
     = (Exit 1, start\<lparr>reads := 1, redeems := 1, console := [ErrorRedeeming (Some [])]\<rparr>)"
proof -
  have h1: "message (JsError None) = None \<or> message (JsError None) = Some []"
    by simp
  have h2: "message (JsError (Some [])) = None \<or> message (JsError (Some [])) = Some []"
    by simp
  have t1: "invoice_try (example_env (\<lambda>n. Inr None) (\<lambda>n. Some (JsError None)) 0)
       ''https://mint.example'' ''q1'' start = (Inl (JsError None), start\<lparr>reads := 1, redeems := 1\<rparr>)"
    by (simp add: invoice_try_def example_env_def start_def call_getMintQuote_def
        call_redeemMintQuote_def is_ISSUED_def)
  have t2: "check_try (example_env (\<lambda>n. Inr None) (\<lambda>n. Some (JsError (Some []))) 0)
       ''https://mint.example'' ''q1'' start = (Inl (JsError (Some [])), start\<lparr>reads := 1, redeems := 1\<rparr>)"
    by (simp add: check_try_def example_env_def start_def call_getMintQuote_def
        call_redeemMintQuote_def is_ISSUED_def)
  show ?thesis
    using error_without_message_is_fatal [OF h1,
        of "example_env (\<lambda>n. Inr None) (\<lambda>n. Some (JsError None)) 0"
          "''https://mint.example''" "''q1''" start 0 300000 "start\<lparr>reads := 1, redeems := 1\<rparr>"]
      error_without_message_is_fatal [OF h2,
        of "example_env (\<lambda>n. Inr None) (\<lambda>n. Some (JsError (Some []))) 0"
          "''https://mint.example''" "''q1''" start 0 300000 "start\<lparr>reads := 1, redeems := 1\<rparr>"]
      t1 t2
    by (simp add: start_def print_def)
qed

text \<open>
  Claim C5. An error whose message matches neither condition of the loop's \<^verbatim>\<open>catch\<close>
  block is thrown again at once: the loop ends with that same error, in the state right
  after the call that threw it (no further call, no sleep), and the command raises it.
\<close>

theorem unrecognised_error_ends_loop:
  assumes "\<not> invoice_already (message_or_empty error)"
    and "\<not> invoice_not_paid (message_or_empty error)"
  shows "invoice_catch e url quoteId error w1 = (Throw error, w1)
       \<and> (now w - startTime < timeoutMs \<and> invoice_try e url quoteId w = (Inl error, w1) \<longrightarrow>
            invoice_loop e url quoteId startTime timeoutMs w = (Inl error, w1))
       \<and> (0 < timeoutMs \<and> invoice_try e url quoteId w = (Inl error, w1) \<longrightarrow>
            invoice_wait e url quoteId timeoutMs w = (Raise error, w1))"
proof -
  have i: "invoice_catch e url quoteId error w1 = (Throw error, w1)"
    using assms by (simp add: invoice_catch_def invoice_wait_or_throw_def)
  have l: "invoice_loop e url quoteId startTime timeoutMs w = (Inl error, w1)"
    if "now w - startTime < timeoutMs" "invoice_try e url quoteId w = (Inl error, w1)"
    for startTime timeoutMs
    using that by (simp add: invoice_loop_enter invoice_body_def i)
  show ?thesis
    using l l [of "now w"] by (simp add: i invoice_wait_def)
qed

theorem unrecognised_error_ends_loop_witness:
  "\<not> invoice_already (message_or_empty (JsError (Some ''Mint unreachable'')))
   \<and> \<not> invoice_not_paid (message_or_empty (JsError (Some ''Mint unreachable'')))
   \<and> invoice_loop (example_env (\<lambda>n. Inr (stored ''UNPAID'')) (\<lambda>n. Some (JsError (Some ''Mint unreachable''))) 0)
         ''https://mint.example'' ''q1'' 0 300000 start
       = (Inl (JsError (Some ''Mint unreachable'')), start\<lparr>reads := 1, redeems := 1\<rparr>)
   \<and> invoice_wait (example_env (\<lambda>n. Inr (stored ''UNPAID'')) (\<lambda>n. Some (JsError (Some ''Mint unreachable''))) 0)
         ''https://mint.example'' ''q1'' 300000 start
       = (Raise (JsError (Some ''Mint unreachable'')), start\<lparr>reads := 1, redeems := 1\<rparr>)"
proof -
  have h1: "\<not> invoice_already (message_or_empty (JsError (Some ''Mint unreachable'')))"
    by (simp add: invoice_already_def message_or_empty_def)
  have h2: "\<not> invoice_not_paid (message_or_empty (JsError (Some ''Mint unreachable'')))"
    by (simp add: invoice_not_paid_def message_or_empty_def)
  have t: "invoice_try (example_env (\<lambda>n. Inr (stored ''UNPAID'')) (\<lambda>n. Some (JsError (Some ''Mint unreachable''))) 0)
       ''https://mint.example'' ''q1'' start
     = (Inl (JsError (Some ''Mint unreachable'')), start\<lparr>reads := 1, redeems := 1\<rparr>)"
    by (simp add: invoice_try_def example_env_def stored_def start_def call_getMintQuote_def
        call_redeemMintQuote_def is_ISSUED_def)
  have live: "now start - 0 < (300000::int)" "(0::int) < 300000"
    by (simp_all add: start_def)
  note f = unrecognised_error_ends_loop [OF h1 h2,
      where w = start and startTime = 0 and timeoutMs = 300000
        and e = "example_env (\<lambda>n. Inr (stored ''UNPAID'')) (\<lambda>n. Some (JsError (Some ''Mint unreachable''))) 0"
        and url = "''https://mint.example''" and quoteId = "''q1''"
        and ?w1.0 = "start\<lparr>reads := 1, redeems := 1\<rparr>"]
  show ?thesis
    using f t live h1 h2 by blast
qed

subsection \<open>The \<^verbatim>\<open>catch\<close> blocks\<close>

text \<open>
  What each \<^verbatim>\<open>catch\<close> block does in its three cases: the re-read of the store
  returns, the re-read throws, the message carries no "already" pattern.
\<close>

lemma classification_simps:
  "invoice_classification (Break_paid, w) = Duplicate_success"
  "invoice_classification (Next_poll, w) = Pending"
  "invoice_classification (Throw err, w) = Fatal"
  "check_classification (Fallthrough, print InvoicePaid w') = Duplicate_success"
  "check_classification (Fallthrough, print NotPaidYet w') = Pending"
  "check_classification (Exit code, w') = Fatal"
  "check_classification (Raise err, w') = Fatal"
  by (simp_all add: invoice_classification_def check_classification_def print_def)

lemma invoice_catch_returned:
  assumes "getMintQuote e (reads w) url quoteId = Inr localQuote"
    and "invoice_already (message_or_empty error)"
  shows "invoice_catch e url quoteId error w =
     (if is_ISSUED localQuote then (Break_paid, snd (call_getMintQuote e url quoteId w))
      else invoice_wait_or_throw e (message_or_empty error) error (snd (call_getMintQuote e url quoteId w)))"
  using assms by (simp add: invoice_catch_def call_getMintQuote_def)

lemma check_catch_returned:
  assumes "getMintQuote e (reads w) url quoteId = Inr localQuote"
    and "check_already (message_or_empty error)"
  shows "check_catch e url quoteId error w =
     (if is_ISSUED localQuote
      then (Fallthrough, print InvoicePaid (snd (call_getMintQuote e url quoteId w)))
      else check_report_or_exit (message_or_empty error) error (snd (call_getMintQuote e url quoteId w)))"
  using assms by (simp add: check_catch_def call_getMintQuote_def)

lemma invoice_catch_threw:
  assumes "getMintQuote e (reads w) url quoteId = Inl err"
    and "invoice_already (message_or_empty error)"
  shows "invoice_catch e url quoteId error w = (Throw err, snd (call_getMintQuote e url quoteId w))"
  using assms by (simp add: invoice_catch_def call_getMintQuote_def)

lemma check_catch_threw:
  assumes "getMintQuote e (reads w) url quoteId = Inl err"
    and "check_already (message_or_empty error)"
  shows "check_catch e url quoteId error w = (Raise err, snd (call_getMintQuote e url quoteId w))"
  using assms by (simp add: check_catch_def call_getMintQuote_def)

lemma invoice_catch_other:
  "\<not> invoice_already (message_or_empty error) \<Longrightarrow>
   invoice_catch e url quoteId error w = invoice_wait_or_throw e (message_or_empty error) error w"
  by (simp add: invoice_catch_def)

lemma check_catch_other:
  "\<not> check_already (message_or_empty error) \<Longrightarrow>
   check_catch e url quoteId error w = check_report_or_exit (message_or_empty error) error w"
  by (simp add: check_catch_def)

lemma wait_or_throw_classification:
  "invoice_classification (invoice_wait_or_throw e m error w)
     = (if check_not_paid m then Pending else Fatal)"
  by (simp add: invoice_wait_or_throw_def invoice_not_paid_eq classification_simps)

lemma report_or_exit_classification:
  "check_classification (check_report_or_exit m error w)
     = (if check_not_paid m then Pending else Fatal)"
  by (simp add: check_report_or_exit_def classification_simps)

lemma classification_agrees_otherwise:
  assumes "\<not> js_includes (message_or_empty error) ''Tokens already minted''"
  shows "invoice_classification (invoice_catch e url quoteId error w)
       = check_classification (check_catch e url quoteId error w)"
proof (cases "check_already (message_or_empty error)")
  case True
  then have i: "invoice_already (message_or_empty error)"
    by (rule check_already_imp)
  show ?thesis
  proof (cases "getMintQuote e (reads w) url quoteId")
    case (Inl err)
    then show ?thesis
      by (simp add: invoice_catch_threw [OF Inl i] check_catch_threw [OF Inl True]
          classification_simps)
  next
    case (Inr localQuote)
    then show ?thesis
      by (simp add: invoice_catch_returned [OF Inr i] check_catch_returned [OF Inr True]
          classification_simps wait_or_throw_classification report_or_exit_classification)
  qed
next
  case False
  then have "\<not> invoice_already (message_or_empty error)"
    using assms by (simp add: check_already_def invoice_already_def)
  then show ?thesis
    using False
    by (simp add: invoice_catch_other check_catch_other wait_or_throw_classification
        report_or_exit_classification)
qed







text \<open>
  Claim C3, evaluated where the two commands part: the mint answers
  \<^verbatim>\<open>Tokens already minted\<close> and the re-read shows \<open>ISSUED\<close>. The loop tests for that
  message and resolves success (exit code 0); the single check does not test for it and
  exits with 1. On every message without \<^verbatim>\<open>Tokens already minted\<close> the two agree
  (\<open>classification_agrees_otherwise\<close>).
\<close>

theorem tokens_already_minted_paths_disagree:
  "getMintQuote (example_env (\<lambda>n. Inr (stored (if n = 0 then ''PAID'' else ''ISSUED'')))
         (\<lambda>n. Some (JsError (Some ''Tokens already minted''))) 0) 1
         ''https://mint.example'' ''q1'' = Inr (stored ''ISSUED'')
   \<and> invoice_classification (invoice_catch
         (example_env (\<lambda>n. Inr (stored (if n = 0 then ''PAID'' else ''ISSUED'')))
           (\<lambda>n. Some (JsError (Some ''Tokens already minted''))) 0)
         ''https://mint.example'' ''q1'' (JsError (Some ''Tokens already minted''))
         (start\<lparr>reads := 1, redeems := 1\<rparr>)) = Duplicate_success
   \<and> check_classification (check_catch
         (example_env (\<lambda>n. Inr (stored (if n = 0 then ''PAID'' else ''ISSUED'')))
           (\<lambda>n. Some (JsError (Some ''Tokens already minted''))) 0)
         ''https://mint.example'' ''q1'' (JsError (Some ''Tokens already minted''))
         (start\<lparr>reads := 1, redeems := 1\<rparr>)) = Fatal
   \<and> fst (main (example_env (\<lambda>n. Inr (stored (if n = 0 then ''PAID'' else ''ISSUED'')))
           (\<lambda>n. Some (JsError (Some ''Tokens already minted''))) 0) Invoice [''500''] start) = 0
   \<and> fst (main (example_env (\<lambda>n. Inr (stored (if n = 0 then ''PAID'' else ''ISSUED'')))
           (\<lambda>n. Some (JsError (Some ''Tokens already minted''))) 0) Check_invoice [''q1''] start) = 1"
  by (simp add: example_env_def stored_def is_ISSUED_def
      start_def invoice_classification_def check_classification_def invoice_catch_def
      check_catch_def message_or_empty_def invoice_already_def check_already_def
      invoice_not_paid_def check_not_paid_def invoice_wait_or_throw_def check_report_or_exit_def
      call_getMintQuote_def call_redeemMintQuote_def print_def main_def invoice_cmd_def
      check_invoice_cmd_def arg_def truthy_def resolve_mintUrl_def or_default_def
      example_parseInt_def invoice_wait_def invoice_loop_enter invoice_body_def invoice_try_def
      check_reconcile_def check_try_def cleanup_def)

subsection \<open>Exit codes\<close>




lemma check_reconcile_issued:
  assumes "getMintQuote e (reads w) url quoteId = Inr (Some q)" and "state q = ''ISSUED''"
  shows "check_reconcile e url quoteId w
           = (Fallthrough, print InvoicePaid (snd (call_getMintQuote e url quoteId w)))"
  using assms
  by (simp add: check_reconcile_def check_try_def call_getMintQuote_def is_ISSUED_def)







subsection \<open>Repeating the single check\<close>

text \<open>
  Claim C7. While the store shows the quote as \<open>ISSUED\<close>, any number of runs of
  \<^verbatim>\<open>check-invoice\<close> all exit with 0, each prints the confirmation, and
  \<^verbatim>\<open>redeemMintQuote\<close> is never called.
\<close>

theorem check_invoice_issued_idempotent:
  assumes "truthy (arg args 0)" and "resolve_mintUrl e (arg args 1) = Inr (Some url)"
    and "url \<noteq> []"
    and "\<forall>k. \<exists>q. getMintQuote e k url (args ! 0) = Inr (Some q) \<and> state q = ''ISSUED''"
  shows "fst (check_invoice_times n e args w) = replicate n 0
       \<and> redeems (snd (check_invoice_times n e args w)) = redeems w
       \<and> reads (snd (check_invoice_times n e args w)) = reads w + n
       \<and> console (snd (check_invoice_times n e args w)) = console w @ replicate n InvoicePaid"
proof (induction n arbitrary: w)
  case 0
  show ?case by simp
next
  case (Suc n)
  obtain q where q: "getMintQuote e (reads w) url (args ! 0) = Inr (Some q)" "state q = ''ISSUED''"
    using assms(4) by blast
  define w1 where "w1 = cleanup (print InvoicePaid (snd (call_getMintQuote e url (args ! 0) w)))"
  have run: "main e Check_invoice args w = (0, w1)"
    by (simp add: main_def check_invoice_cmd_resolved [OF assms(1-3)]
        check_reconcile_issued [OF q] w1_def)
  have w1: "redeems w1 = redeems w" "reads w1 = Suc (reads w)"
    "console w1 = console w @ [InvoicePaid]"
    by (simp_all add: w1_def cleanup_def print_def call_getMintQuote_def)
  obtain codes w2 where rest: "check_invoice_times n e args w1 = (codes, w2)"
    by (cases "check_invoice_times n e args w1")
  have "codes = replicate n 0" "redeems w2 = redeems w1" "reads w2 = reads w1 + n"
    "console w2 = console w1 @ replicate n InvoicePaid"
    using Suc.IH [of w1] rest by simp_all
  then show ?case
    using w1 by (simp add: run rest)
qed

theorem check_invoice_issued_idempotent_witness:
  "truthy (arg [''q1''] 0)
   \<and> resolve_mintUrl (example_env (\<lambda>n. Inr (stored ''ISSUED'')) (\<lambda>n. None) 0) (arg [''q1''] 1)
       = Inr (Some ''https://mint.example'')
   \<and> fst (check_invoice_times 3 (example_env (\<lambda>n. Inr (stored ''ISSUED'')) (\<lambda>n. None) 0)
         [''q1''] start) = [0, 0, 0]
   \<and> redeems (snd (check_invoice_times 3 (example_env (\<lambda>n. Inr (stored ''ISSUED'')) (\<lambda>n. None) 0)
         [''q1''] start)) = 0
   \<and> console (snd (check_invoice_times 3 (example_env (\<lambda>n. Inr (stored ''ISSUED'')) (\<lambda>n. None) 0)
         [''q1''] start)) = [InvoicePaid, InvoicePaid, InvoicePaid]"
proof -
  have h1: "truthy (arg [''q1''] 0)"
    by (simp add: truthy_def arg_def)
  have h2: "resolve_mintUrl (example_env (\<lambda>n. Inr (stored ''ISSUED'')) (\<lambda>n. None) 0) (arg [''q1''] 1)
       = Inr (Some ''https://mint.example'')"
    by (simp add: resolve_mintUrl_def truthy_def arg_def example_env_def)
  have h3: "''https://mint.example'' \<noteq> []"
    by simp
  have h4: "\<forall>k. \<exists>q. getMintQuote (example_env (\<lambda>n. Inr (stored ''ISSUED'')) (\<lambda>n. None) 0) k
        ''https://mint.example'' ([''q1''] ! 0) = Inr (Some q) \<and> state q = ''ISSUED''"
    by (simp add: example_env_def stored_def)
  have r: "replicate 3 (0::nat) = [0, 0, 0]" "replicate 3 InvoicePaid = [InvoicePaid, InvoicePaid, InvoicePaid]"
    by (simp_all add: numeral_3_eq_3)
  have s: "redeems start = 0" "console start = []"
    by (simp_all add: start_def)
  show ?thesis
    using check_invoice_issued_idempotent [OF h1 h2 h3 h4, of 3 start] h1 h2
    unfolding r s by simp
qed

subsection \<open>A quote that is never paid\<close>

text \<open>
  One pass of the loop while the quote is unpaid: the store never shows \<open>ISSUED\<close>,
  every redemption fails with a "not paid" message, and each call and each timer is at
  most 200 ms late. The pass redeems once, prints a dot, sleeps, and takes between 5000
  and 5800 ms.
\<close>

lemma pending_pass:
  assumes rd: "\<forall>k. \<exists>lq. getMintQuote e k url quoteId = Inr lq \<and> \<not> is_ISSUED lq"
    and rm: "\<forall>k. \<exists>err. redeemMintQuote e k url quoteId = Some err
                \<and> invoice_not_paid (message_or_empty err)"
    and fast: "\<forall>k. getMintQuote_ms e k \<le> 200 \<and> redeemMintQuote_ms e k \<le> 200
                \<and> setTimeout_late e k \<le> 200"
  obtains w1 where "invoice_body e url quoteId w = (Next_poll, w1)"
    and "redeems w1 = Suc (redeems w)" and "sleeps w1 = Suc (sleeps w)"
    and "console w1 = console w @ [Dot]"
    and "now w + 5000 \<le> now w1" and "now w1 \<le> now w + 5800"
proof -
  obtain lq where lq: "getMintQuote e (reads w) url quoteId = Inr lq" "\<not> is_ISSUED lq"
    using rd by blast
  obtain err where err: "redeemMintQuote e (redeems w) url quoteId = Some err"
    "invoice_not_paid (message_or_empty err)"
    using rm by blast
  define wa where "wa = snd (call_getMintQuote e url quoteId w)"
  define wb where "wb = snd (call_redeemMintQuote e url quoteId wa)"
  have wa: "redeems wa = redeems w" "sleeps wa = sleeps w" "console wa = console w"
    "reads wa = Suc (reads w)" "now w \<le> now wa" "now wa \<le> now w + 200"
    using fast [rule_format, of "reads w"] by (simp_all add: wa_def call_getMintQuote_def)
  have wb: "redeems wb = Suc (redeems w)" "sleeps wb = sleeps w" "console wb = console w"
    "reads wb = Suc (reads w)" "now w \<le> now wb" "now wb \<le> now w + 400"
    using fast [rule_format, of "redeems w"] wa
    by (simp_all add: wb_def call_redeemMintQuote_def)
  have t: "invoice_try e url quoteId w = (Inl err, wb)"
    using lq err wa
    by (simp add: invoice_try_def call_getMintQuote_def call_redeemMintQuote_def wa_def wb_def)
  have b: "invoice_body e url quoteId w = invoice_catch e url quoteId err wb"
    by (simp add: invoice_body_def t)
  have sl: "redeems (call_setTimeout e pollInterval (print Dot w')) = redeems w'"
    "sleeps (call_setTimeout e pollInterval (print Dot w')) = Suc (sleeps w')"
    "console (call_setTimeout e pollInterval (print Dot w')) = console w' @ [Dot]"
    "now w' + 5000 \<le> now (call_setTimeout e pollInterval (print Dot w'))"
    "now (call_setTimeout e pollInterval (print Dot w')) \<le> now w' + 5200" for w'
    using fast [rule_format, of "sleeps w'"]
    by (simp_all add: call_setTimeout_def print_def pollInterval_def)
  show ?thesis
  proof (cases "invoice_already (message_or_empty err)")
    case False
    then have c: "invoice_catch e url quoteId err wb
        = (Next_poll, call_setTimeout e pollInterval (print Dot wb))"
      using err(2) by (simp add: invoice_catch_other invoice_wait_or_throw_def)
    show ?thesis
    proof (rule that [of "call_setTimeout e pollInterval (print Dot wb)"])
      show "invoice_body e url quoteId w = (Next_poll, call_setTimeout e pollInterval (print Dot wb))"
        by (simp add: b c)
    qed (use sl [of wb] wb in simp_all)
  next
    case True
    obtain lq' where lq': "getMintQuote e (reads wb) url quoteId = Inr lq'" "\<not> is_ISSUED lq'"
      using rd by blast
    define wc where "wc = snd (call_getMintQuote e url quoteId wb)"
    have wc: "redeems wc = Suc (redeems w)" "sleeps wc = sleeps w" "console wc = console w"
      "now w \<le> now wc" "now wc \<le> now w + 600"
      using fast [rule_format, of "reads wb"] wb by (simp_all add: wc_def call_getMintQuote_def)
    have c: "invoice_catch e url quoteId err wb
        = (Next_poll, call_setTimeout e pollInterval (print Dot wc))"
      using err(2) lq'(2)
      by (simp add: invoice_catch_returned [OF lq'(1) True] invoice_wait_or_throw_def wc_def)
    show ?thesis
    proof (rule that [of "call_setTimeout e pollInterval (print Dot wc)"])
      show "invoice_body e url quoteId w = (Next_poll, call_setTimeout e pollInterval (print Dot wc))"
        by (simp add: b c)
    qed (use sl [of wc] wc in simp_all)
  qed
qed

text \<open>
  Claim C6, as amended. With \<open>pollInterval = 5000\<close> and a timeout of 12000 ms, a quote
  that is never paid is polled three times (the loop tests the clock before each pass, and
  the third pass starts between 10000 and 11600 ms); the command then prints the
  timeout hint and the process exits with 0.
\<close>

theorem unpaid_quote_times_out_after_three_polls:
  assumes url: "resolve_mintUrl e (arg args 1) = Inr (Some url)" "url \<noteq> []"
    and q: "createMintQuote e url (or_default (parseInt e (arg args 0)) 1000) = Inr q"
    and timeout: "parseInt e (arg args 2) = Some 12000"
    and rd: "\<forall>k. \<exists>lq. getMintQuote e k url (quote q) = Inr lq \<and> \<not> is_ISSUED lq"
    and rm: "\<forall>k. \<exists>err. redeemMintQuote e k url (quote q) = Some err
                \<and> invoice_not_paid (message_or_empty err)"
    and fast: "\<forall>k. getMintQuote_ms e k \<le> 200 \<and> redeemMintQuote_ms e k \<le> 200
                \<and> setTimeout_late e k \<le> 200"
  shows "fst (main e Invoice args w) = 0
       \<and> redeems (snd (main e Invoice args w)) = redeems w + 3
       \<and> sleeps (snd (main e Invoice args w)) = sleeps w + 3
       \<and> console (snd (main e Invoice args w))
           = console w @ [InvoiceInfo (request q) (quote q)
                            (or_default (parseInt e (arg args 0)) 1000) url 12000,
                          Dot, Dot, Dot, PaymentTimeout (quote q) url]"
proof -
  define info where "info = InvoiceInfo (request q) (quote q)
      (or_default (parseInt e (arg args 0)) 1000) url 12000"
  define w0 where "w0 = print info w"
  have t: "or_default (parseInt e (arg args 2)) 300000 = 12000"
    by (simp add: timeout or_default_def)
  have cmd: "invoice_cmd e args w = invoice_wait e url (quote q) 12000 w0"
    by (simp add: invoice_cmd_resolved [OF url q] t w0_def info_def)
  have w0: "now w0 = now w" "redeems w0 = redeems w" "sleeps w0 = sleeps w"
    "console w0 = console w @ [info]"
    by (simp_all add: w0_def print_def)
  obtain w1 where w1: "invoice_body e url (quote q) w0 = (Next_poll, w1)"
    "redeems w1 = Suc (redeems w0)" "sleeps w1 = Suc (sleeps w0)"
    "console w1 = console w0 @ [Dot]" "now w0 + 5000 \<le> now w1" "now w1 \<le> now w0 + 5800"
    by (rule pending_pass [OF rd rm fast])
  obtain w2 where w2: "invoice_body e url (quote q) w1 = (Next_poll, w2)"
    "redeems w2 = Suc (redeems w1)" "sleeps w2 = Suc (sleeps w1)"
    "console w2 = console w1 @ [Dot]" "now w1 + 5000 \<le> now w2" "now w2 \<le> now w1 + 5800"
    by (rule pending_pass [OF rd rm fast])
  obtain w3 where w3: "invoice_body e url (quote q) w2 = (Next_poll, w3)"
    "redeems w3 = Suc (redeems w2)" "sleeps w3 = Suc (sleeps w2)"
    "console w3 = console w2 @ [Dot]" "now w2 + 5000 \<le> now w3" "now w3 \<le> now w2 + 5800"
    by (rule pending_pass [OF rd rm fast])
  have l3: "invoice_loop e url (quote q) (now w0) 12000 w3 = (Inr False, w3)"
    using w1(5) w2(5) w3(5) by (simp add: invoice_loop_leave)
  have l2: "invoice_loop e url (quote q) (now w0) 12000 w2 = (Inr False, w3)"
    using w1(6) w2(6) by (simp add: invoice_loop_enter w3(1) l3)
  have l1: "invoice_loop e url (quote q) (now w0) 12000 w1 = (Inr False, w3)"
    using w1(6) by (simp add: invoice_loop_enter w2(1) l2)
  have l0: "invoice_loop e url (quote q) (now w0) 12000 w0 = (Inr False, w3)"
    by (simp add: invoice_loop_enter w1(1) l1)
  have run: "main e Invoice args w = (0, cleanup (print (PaymentTimeout (quote q) url) w3))"
    by (simp add: main_def cmd invoice_wait_def l0)
  show ?thesis
    using w0 w1(2-4) w2(2-4) w3(2-4)
    by (simp add: run cleanup_def print_def info_def)
qed

theorem unpaid_quote_times_out_after_three_polls_witness:
  "fst (main (example_env (\<lambda>n. Inr (stored ''UNPAID'')) (\<lambda>n. Some (JsError (Some ''Quote not paid''))) 100)
        Invoice [''500'', ''https://mint.example'', ''12000''] start) = 0
   \<and> redeems (snd (main (example_env (\<lambda>n. Inr (stored ''UNPAID''))
          (\<lambda>n. Some (JsError (Some ''Quote not paid''))) 100)
        Invoice [''500'', ''https://mint.example'', ''12000''] start)) = 3
   \<and> console (snd (main (example_env (\<lambda>n. Inr (stored ''UNPAID''))
          (\<lambda>n. Some (JsError (Some ''Quote not paid''))) 100)
        Invoice [''500'', ''https://mint.example'', ''12000''] start))
       = [InvoiceInfo ''lnbc1'' ''q1'' 500 ''https://mint.example'' 12000, Dot, Dot, Dot,
          PaymentTimeout ''q1'' ''https://mint.example'']"
proof -
  let ?e = "example_env (\<lambda>n. Inr (stored ''UNPAID'')) (\<lambda>n. Some (JsError (Some ''Quote not paid''))) 100"
  let ?args = "[''500'', ''https://mint.example'', ''12000'']"
  let ?q = "\<lparr>quote = ''q1'', request = ''lnbc1'', state = ''UNPAID''\<rparr>"
  have amount: "or_default (parseInt ?e (arg ?args 0)) 1000 = 500"
    by (simp add: example_env_def example_parseInt_def arg_def or_default_def)
  have h1: "resolve_mintUrl ?e (arg ?args 1) = Inr (Some ''https://mint.example'')"
    by (simp add: resolve_mintUrl_def truthy_def arg_def)
  have h2: "''https://mint.example'' \<noteq> []"
    by simp
  have h3: "createMintQuote ?e ''https://mint.example'' (or_default (parseInt ?e (arg ?args 0)) 1000)
      = Inr ?q"
    by (simp add: example_env_def)
  have h4: "parseInt ?e (arg ?args 2) = Some 12000"
    by (simp add: example_env_def example_parseInt_def arg_def)
  have h5: "\<forall>k. \<exists>lq. getMintQuote ?e k ''https://mint.example'' (quote ?q) = Inr lq \<and> \<not> is_ISSUED lq"
    by (simp add: example_env_def stored_def is_ISSUED_def)
  have h6: "\<forall>k. \<exists>err. redeemMintQuote ?e k ''https://mint.example'' (quote ?q) = Some err
      \<and> invoice_not_paid (message_or_empty err)"
    by (simp add: example_env_def invoice_not_paid_def message_or_empty_def)
  have h7: "\<forall>k. getMintQuote_ms ?e k \<le> 200 \<and> redeemMintQuote_ms ?e k \<le> 200
      \<and> setTimeout_late ?e k \<le> 200"
    by (simp add: example_env_def)
  have s: "redeems start = 0" "console start = []"
    by (simp_all add: start_def)
  show ?thesis
    using unpaid_quote_times_out_after_three_polls [OF h1 h2 h3 h4 h5 h6 h7, of start]
    unfolding amount s by simp
qed

text \<open>
  Claim C6 as stated fails: with calls that take no time the passes start at 0, 5000 and
  10000 ms, so \<^verbatim>\<open>redeemMintQuote\<close> is called three times, not two, before the loop
  ends at 15000 ms.
\<close>

theorem unpaid_quote_polled_three_times:
  "fst (main (example_env (\<lambda>n. Inr (stored ''UNPAID'')) (\<lambda>n. Some (JsError (Some ''Quote not paid''))) 0)
        Invoice [''500'', ''https://mint.example'', ''12000''] start) = 0
   \<and> redeems (snd (main (example_env (\<lambda>n. Inr (stored ''UNPAID''))
          (\<lambda>n. Some (JsError (Some ''Quote not paid''))) 0)
        Invoice [''500'', ''https://mint.example'', ''12000''] start)) = 3
   \<and> redeems (snd (main (example_env (\<lambda>n. Inr (stored ''UNPAID''))
          (\<lambda>n. Some (JsError (Some ''Quote not paid''))) 0)
        Invoice [''500'', ''https://mint.example'', ''12000''] start)) \<noteq> 2
   \<and> now (snd (main (example_env (\<lambda>n. Inr (stored ''UNPAID''))
          (\<lambda>n. Some (JsError (Some ''Quote not paid''))) 0)
        Invoice [''500'', ''https://mint.example'', ''12000''] start)) = 15000"
  by (simp add: example_env_def stored_def is_ISSUED_def
      start_def invoice_catch_def message_or_empty_def invoice_already_def
      invoice_not_paid_def invoice_wait_or_throw_def pollInterval_def call_setTimeout_def
      call_getMintQuote_def call_redeemMintQuote_def print_def main_def invoice_cmd_def
      arg_def truthy_def resolve_mintUrl_def or_default_def
      example_parseInt_def invoice_wait_def invoice_loop_enter invoice_loop_leave
      invoice_body_def invoice_try_def cleanup_def)

end
